theory Spec2Isabelle
  imports Complex_Main "HOL-Library.Sublist"
begin

section \<open>Strings\<close>

text \<open>
  Python strings are modelled as lists of 8-bit characters. The helpers below follow the
  Python string methods the sources call, on ASCII text: \<open>str.strip\<close>, \<open>str.lower\<close>,
  \<open>str.split\<close> on a separator character, \<open>str.replace(old, '')\<close>, \<open>str.startswith\<close>
  (the library's \<open>prefix\<close>) and the substring test \<open>in\<close> (the library's \<open>sublist\<close>).
  Floating-point numbers are idealised as real numbers.
\<close>

definition is_space :: "char \<Rightarrow> bool" where
  "is_space c = (let n = (of_char c :: nat) in (9 \<le> n \<and> n \<le> 13) \<or> (28 \<le> n \<and> n \<le> 32))"

definition is_digit :: "char \<Rightarrow> bool" where
  "is_digit c = (let n = (of_char c :: nat) in 48 \<le> n \<and> n \<le> 57)"

definition strip :: "string \<Rightarrow> string" where
  "strip s = rev (dropWhile is_space (rev (dropWhile is_space s)))"

definition lower_char :: "char \<Rightarrow> char" where
  "lower_char c = (let n = (of_char c :: nat) in if 65 \<le> n \<and> n \<le> 90 then char_of (n + 32) else c)"

definition lower :: "string \<Rightarrow> string" where
  "lower s = map lower_char s"

fun split_on :: "char \<Rightarrow> string \<Rightarrow> string list" where
  "split_on d [] = [[]]"
| "split_on d (c # cs) =
     (if c = d then [] # split_on d cs
      else (case split_on d cs of
              [] \<Rightarrow> [[c]]
            | w # ws \<Rightarrow> (c # w) # ws))"

function str_remove :: "string \<Rightarrow> string \<Rightarrow> string" where
  "str_remove old [] = []"
| "str_remove old (c # cs) =
     (if old \<noteq> [] \<and> prefix old (c # cs)
      then str_remove old (drop (length old) (c # cs))
      else c # str_remove old cs)"
  by pat_completeness auto
termination
  by (relation "measure (\<lambda>(old, s). length s)") auto

text \<open>Python's slices \<open>s[:n]\<close> and \<open>s[-n:]\<close> for a positive \<open>n\<close>.\<close>

definition slice_to :: "nat \<Rightarrow> string \<Rightarrow> string" where
  "slice_to n s = take n s"

definition slice_last :: "nat \<Rightarrow> string \<Rightarrow> string" where
  "slice_last n s = drop (length s - n) s"

text \<open>
  The builtin \<open>float\<close> is a parameter \<open>float_of\<close> of the functions that call it:
  \<open>None\<close> stands for \<open>ValueError\<close>, and the general properties hold for every such
  parameter. \<open>float_plain\<close> is the builtin on the strings made of decimal digits and
  dots, with surrounding whitespace: these are what remains of an amount token once
  \<open>$\<close> and the commas are removed, and what a plain decimal confidence is. On them
  \<open>float\<close> raises exactly when there is no digit or more than one dot. It is used on
  such strings only, where a concrete text is evaluated.
\<close>

definition digit_val :: "char \<Rightarrow> nat" where
  "digit_val c = of_char c - 48"

definition nat_of_digits :: "string \<Rightarrow> nat" where
  "nat_of_digits ds = foldl (\<lambda>a c. 10 * a + digit_val c) 0 ds"

definition float_plain :: "string \<Rightarrow> real option" where
  "float_plain s =
     (let t = strip s;
          ip = takeWhile is_digit t;
          r = dropWhile is_digit t
      in case r of
           [] \<Rightarrow> (if ip = [] then None else Some (real (nat_of_digits ip)))
         | d # fp \<Rightarrow>
             (if d = CHR ''.'' \<and> list_all is_digit fp \<and> (ip \<noteq> [] \<or> fp \<noteq> [])
              then Some (real (nat_of_digits (ip @ fp)) / 10 ^ length fp)
              else None))"

section \<open>Emails and classifications\<close>

text \<open>
  An email is the dictionary the loader returns: \<open>load_email\<close> rejects a record without
  \<open>email_id\<close>, \<open>sender\<close>, \<open>subject\<close>, \<open>body\<close> or \<open>date\<close>, so these are plain
  fields; \<open>sender_name\<close>, \<open>priority\<close> and \<open>attachments\<close> are read with \<open>dict.get\<close>
  and are optional (\<open>None\<close>: the key is absent).
\<close>

record email =
  email_id :: string
  sender :: string
  subject :: string
  body :: string
  date :: string
  sender_name :: "string option"
  priority :: "string option"
  attachments :: "string list option"

record category_info =
  description :: string
  category_keywords :: "string list"
  typical_actions :: "string list"
  priority_boost :: bool

record classification =
  intent :: string
  confidence :: real
  sub_category :: "string option"
  reasoning :: string

record classified = classification +
  category :: "category_info option"

definition INTENT_CATEGORIES :: "(string \<times> category_info) list" where
  "INTENT_CATEGORIES =
    [(''loan_request'',
        \<lparr>description = ''Customer requesting a loan (home, auto, business, personal)'',
         category_keywords = [''loan'', ''mortgage'', ''financing'', ''borrow'', ''credit''],
         typical_actions = [''escalate''], priority_boost = True\<rparr>),
     (''kyc_update'',
        \<lparr>description = ''Customer updating KYC/personal information (address, employment, documents)'',
         category_keywords = [''update'', ''kyc'', ''address'', ''employment'', ''change'', ''verify''],
         typical_actions = [''reply''], priority_boost = False\<rparr>),
     (''account_issue'',
        \<lparr>description = ''Problems with account access, transactions, statements, or technical issues'',
         category_keywords = [''problem'', ''issue'', ''error'', ''unable'', ''cannot'', ''access'', ''login''],
         typical_actions = [''reply'', ''escalate''], priority_boost = True\<rparr>),
     (''fraud_complaint'',
        \<lparr>description = ''Reporting fraud, unauthorized transactions, security concerns, or suspicious activity'',
         category_keywords = [''fraud'', ''unauthorized'', ''suspicious'', ''theft'', ''hack'', ''scam'', ''phishing''],
         typical_actions = [''escalate''], priority_boost = True\<rparr>),
     (''general_inquiry'',
        \<lparr>description = ''General questions about products, services, rates, or information requests'',
         category_keywords = [''question'', ''inquiry'', ''information'', ''rate'', ''fee'', ''service'', ''product''],
         typical_actions = [''reply''], priority_boost = False\<rparr>)]"

text \<open>The five closed intent values: the keys of \<open>INTENT_CATEGORIES\<close>.\<close>

definition closed_intents :: "string list" where
  "closed_intents =
     [''loan_request'', ''kyc_update'', ''account_issue'', ''fraud_complaint'', ''general_inquiry'']"

section \<open>LLMAgent: parsing the completion\<close>

definition parse_default :: classification where
  "parse_default = \<lparr>intent = ''unknown'', confidence = 0, sub_category = None, reasoning = ''''\<rparr>"

text \<open>
  The loop of \<open>_parse_classification_response\<close>. The whole loop sits in one
  \<open>try\<close>: when \<open>float\<close> raises, the remaining lines are not read and the result
  built so far is returned.
\<close>

fun parse_lines :: "(string \<Rightarrow> real option) \<Rightarrow> string list \<Rightarrow> classification \<Rightarrow> classification" where
  "parse_lines float_of [] result = result"
| "parse_lines float_of (l # ls) result =
     (let line = strip l in
      if prefix ''INTENT:'' line then
        parse_lines float_of ls (result\<lparr>intent := lower (strip (str_remove ''INTENT:'' line))\<rparr>)
      else if prefix ''CONFIDENCE:'' line then
        (case float_of (strip (str_remove ''CONFIDENCE:'' line)) of
           None \<Rightarrow> result
         | Some c \<Rightarrow> parse_lines float_of ls (result\<lparr>confidence := c\<rparr>))
      else if prefix ''SUB_CATEGORY:'' line then
        (let sub_cat = strip (str_remove ''SUB_CATEGORY:'' line) in
         parse_lines float_of ls
           (result\<lparr>sub_category := (if lower sub_cat \<noteq> ''none'' then Some sub_cat else None)\<rparr>))
      else if prefix ''REASONING:'' line then
        parse_lines float_of ls (result\<lparr>reasoning := strip (str_remove ''REASONING:'' line)\<rparr>)
      else parse_lines float_of ls result)"

definition parse_classification_response :: "(string \<Rightarrow> real option) \<Rightarrow> string \<Rightarrow> classification" where
  "parse_classification_response float_of response =
     parse_lines float_of (split_on (CHR 0x0A) (strip response)) parse_default"

text \<open>
  \<open>classify_intent\<close>, from the completion on: \<open>generate_completion\<close> returns \<open>None\<close>
  when there is no client or the call raises, and \<open>not response\<close> also holds of the
  empty string.
\<close>

definition classify_intent :: "(string \<Rightarrow> real option) \<Rightarrow> string option \<Rightarrow> classification" where
  "classify_intent float_of completion =
     (case completion of
        None \<Rightarrow> \<lparr>intent = ''unknown'', confidence = 0, sub_category = None,
                 reasoning = ''Failed to classify''\<rparr>
      | Some response \<Rightarrow>
          if response = [] then
            \<lparr>intent = ''unknown'', confidence = 0, sub_category = None,
             reasoning = ''Failed to classify''\<rparr>
          else parse_classification_response float_of response)"

section \<open>IntentClassifier\<close>

text \<open>
  \<open>validate\<close> is the part of \<open>IntentClassifier.classify\<close> after the call of the agent:
  it gets what \<open>classify_intent\<close> returned.
\<close>

definition validate :: "classification \<Rightarrow> classified" where
  "validate c =
     (let c1 = (if intent c \<notin> set (map fst INTENT_CATEGORIES)
                then c\<lparr>intent := ''general_inquiry'', confidence := max 0.5 (confidence c * 0.7)\<rparr>
                else c)
      in classification.extend c1 \<lparr>category = map_of INTENT_CATEGORIES (intent c1)\<rparr>)"

definition classify :: "(string \<Rightarrow> real option) \<Rightarrow> string option \<Rightarrow> classified" where
  "classify float_of completion = validate (classify_intent float_of completion)"

definition priority_of :: "'a email_scheme \<Rightarrow> string" where
  "priority_of e = (case priority e of None \<Rightarrow> ''medium'' | Some p \<Rightarrow> p)"

text \<open>
  \<open>should_escalate\<close>; \<open>fmt\<close> is the format \<open>{confidence:.2f}\<close> of the low-confidence
  reason.
\<close>

definition should_escalate ::
  "(real \<Rightarrow> string) \<Rightarrow> 'c classification_scheme \<Rightarrow> 'a email_scheme \<Rightarrow> bool \<times> string" where
  "should_escalate fmt c e =
     (let i = intent c; conf = confidence c; p = priority_of e in
      if conf < 0.6 then (True, ''Low confidence classification ('' @ fmt conf @ '')'')
      else if p = ''critical'' then (True, ''Critical priority email'')
      else if i = ''fraud_complaint'' then (True, ''Fraud complaint requires immediate review'')
      else if i = ''loan_request'' then (True, ''Loan application requires specialist review'')
      else if i = ''account_issue'' \<and> p = ''high'' then (True, ''High priority account issue'')
      else (False, ''Standard processing''))"

section \<open>LLMAgent.determine_action\<close>

record action =
  action_type :: string
  action_priority :: string
  reason :: string
  assigned_to :: string

definition determine_action :: "'a email_scheme \<Rightarrow> string \<Rightarrow> real \<Rightarrow> action" where
  "determine_action e i conf =
     (let p = priority_of e in
      if conf < 0.6 then
        \<lparr>action_type = ''escalate'', action_priority = p,
         reason = ''Low confidence in classification, requires human review'',
         assigned_to = ''human_review_team''\<rparr>
      else if i = ''fraud_complaint'' \<or> p = ''critical'' then
        \<lparr>action_type = ''escalate'', action_priority = p,
         reason = ''Urgent issue requiring immediate attention'',
         assigned_to = (if i = ''fraud_complaint'' then ''fraud_department'' else ''escalation_team'')\<rparr>
      else if i = ''loan_request'' then
        \<lparr>action_type = ''escalate'', action_priority = p,
         reason = ''Loan application requires underwriting review'',
         assigned_to = ''loan_department''\<rparr>
      else if i = ''kyc_update'' then
        \<lparr>action_type = ''reply'', action_priority = p,
         reason = ''Standard KYC update, can be processed automatically'',
         assigned_to = ''kyc_team''\<rparr>
      else if i = ''account_issue'' then
        (if p = ''high'' then
           \<lparr>action_type = ''escalate'', action_priority = p,
            reason = ''High priority account issue'',
            assigned_to = ''customer_support_tier2''\<rparr>
         else
           \<lparr>action_type = ''reply'', action_priority = p,
            reason = ''Standard account issue'',
            assigned_to = ''customer_support''\<rparr>)
      else
        \<lparr>action_type = ''reply'', action_priority = p,
         reason = ''General inquiry, can be handled with standard response'',
         assigned_to = ''customer_support''\<rparr>)"

section \<open>The rule lists of the specification\<close>

text \<open>
  The specification describes the escalation decision and the action resolver as ordered
  rule lists over (intent, confidence, priority) in which the first rule whose condition
  holds decides. \<open>first_match\<close> evaluates such a list; \<open>escalation_rules\<close> and
  \<open>action_rules\<close> are the two lists as the specification words them, to be compared with
  \<open>should_escalate\<close> and \<open>determine_action\<close>.
\<close>

fun first_match :: "(('a \<Rightarrow> bool) \<times> ('a \<Rightarrow> 'b)) list \<Rightarrow> ('a \<Rightarrow> 'b) \<Rightarrow> 'a \<Rightarrow> 'b" where
  "first_match [] otherwise x = otherwise x"
| "first_match ((cond, outcome) # rules) otherwise x =
     (if cond x then outcome x else first_match rules otherwise x)"

definition escalation_rules ::
  "(real \<Rightarrow> string) \<Rightarrow>
   ((string \<times> real \<times> string \<Rightarrow> bool) \<times> (string \<times> real \<times> string \<Rightarrow> bool \<times> string)) list" where
  "escalation_rules fmt =
     [(\<lambda>(i, conf, p). conf < 0.6,
       \<lambda>(i, conf, p). (True, ''Low confidence classification ('' @ fmt conf @ '')'')),
      (\<lambda>(i, conf, p). p = ''critical'',
       \<lambda>_. (True, ''Critical priority email'')),
      (\<lambda>(i, conf, p). i = ''fraud_complaint'',
       \<lambda>_. (True, ''Fraud complaint requires immediate review'')),
      (\<lambda>(i, conf, p). i = ''loan_request'',
       \<lambda>_. (True, ''Loan application requires specialist review'')),
      (\<lambda>(i, conf, p). i = ''account_issue'' \<and> p = ''high'',
       \<lambda>_. (True, ''High priority account issue''))]"

definition action_rules ::
  "((string \<times> real \<times> string \<Rightarrow> bool) \<times> (string \<times> real \<times> string \<Rightarrow> string \<times> string)) list" where
  "action_rules =
     [(\<lambda>(i, conf, p). conf < 0.6,
       \<lambda>_. (''escalate'', ''human_review_team'')),
      (\<lambda>(i, conf, p). i = ''fraud_complaint'' \<or> p = ''critical'',
       \<lambda>(i, conf, p). (''escalate'',
          if i = ''fraud_complaint'' then ''fraud_department'' else ''escalation_team'')),
      (\<lambda>(i, conf, p). i = ''loan_request'',
       \<lambda>_. (''escalate'', ''loan_department'')),
      (\<lambda>(i, conf, p). i = ''kyc_update'',
       \<lambda>_. (''reply'', ''kyc_team'')),
      (\<lambda>(i, conf, p). i = ''account_issue'',
       \<lambda>(i, conf, p). if p = ''high'' then (''escalate'', ''customer_support_tier2'')
                        else (''reply'', ''customer_support''))]"

text \<open>The priorities \<open>validate_email_structure\<close> accepts.\<close>

definition valid_priorities :: "string list" where
  "valid_priorities = [''critical'', ''high'', ''medium'', ''low'']"

section \<open>OCREngine: structured data\<close>

text \<open>
  \<open>amount_match\<close> is a match of \<open>amount_pattern\<close>, \<open>\$[\d,]+\.?\d*\<close>, at the head of
  the text: every quantifier is greedy and everything after the first digit or comma is
  optional, so the match takes the longest run of digits and commas, a dot when one
  follows, and the longest run of digits after it. \<open>amount_findall\<close> is
  \<open>amount_pattern.findall\<close>: the matches from left to right, the search resuming where
  the previous match ended (\<open>skip\<close> counts the characters of a match still to pass).
\<close>

definition amount_match :: "string \<Rightarrow> string option" where
  "amount_match s =
     (case s of
        [] \<Rightarrow> None
      | c # cs \<Rightarrow>
          if c \<noteq> CHR ''$'' then None
          else
            (let digits_commas = takeWhile (\<lambda>x. is_digit x \<or> x = CHR '','') cs;
                 r1 = dropWhile (\<lambda>x. is_digit x \<or> x = CHR '','') cs;
                 dot = (case r1 of [] \<Rightarrow> [] | d # _ \<Rightarrow> if d = CHR ''.'' then [d] else []);
                 r2 = drop (length dot) r1;
                 decimals = takeWhile is_digit r2
             in if digits_commas = [] then None
                else Some (c # digits_commas @ dot @ decimals)))"

fun amount_scan :: "nat \<Rightarrow> string \<Rightarrow> string list" where
  "amount_scan skip [] = []"
| "amount_scan skip (c # cs) =
     (if 0 < skip then amount_scan (skip - 1) cs
      else (case amount_match (c # cs) of
              None \<Rightarrow> amount_scan 0 cs
            | Some tok \<Rightarrow> tok # amount_scan (length tok - 1) cs))"

definition amount_findall :: "string \<Rightarrow> string list" where
  "amount_findall text = amount_scan 0 text"

text \<open>
  The other compiled patterns of the engine, each given by what its \<open>findall\<close> returns
  on a text; \<open>name_findall\<close> is the pattern compiled in \<open>_extract_names\<close>.
\<close>

record ocr_patterns =
  account_number_findall :: "string \<Rightarrow> string list"
  date_findall :: "string \<Rightarrow> string list"
  phone_findall :: "string \<Rightarrow> string list"
  email_findall :: "string \<Rightarrow> string list"
  name_findall :: "string \<Rightarrow> string list"

record structured_data =
  account_numbers :: "string list"
  amounts :: "real list"
  dates :: "string list"
  phone_numbers :: "string list"
  emails :: "string list"
  names :: "string list"

definition parse_amount :: "(string \<Rightarrow> real option) \<Rightarrow> string \<Rightarrow> real" where
  "parse_amount float_of amount_str =
     (let cleaned = str_remove '','' (str_remove ''$'' amount_str) in
      case float_of cleaned of
        None \<Rightarrow> 0
      | Some v \<Rightarrow> v)"

definition false_positives :: "string list" where
  "false_positives =
     [''Account Number'', ''Business Name'', ''Loan Amount'', ''Annual Income'',
      ''Credit Score'', ''Date Birth'', ''Phone Number'', ''Email Address'',
      ''Net Profit'', ''Total Revenue'', ''Account Holder'', ''Primary Account'',
      ''Secondary Account'', ''Business Information'', ''Loan Request'',
      ''Financial Summary'', ''Supporting Documents'', ''New Address'',
      ''Previous Address'', ''Effective Date'', ''Employment Update'',
      ''Return Date'', ''Transaction Date'', ''Credit Card'']"

text \<open>
  \<open>list(set(xs))\<close> keeps one copy of each element, in an order Python does not
  specify; \<open>remdups\<close> fixes one such order.
\<close>

definition extract_names :: "ocr_patterns \<Rightarrow> string \<Rightarrow> string list" where
  "extract_names pats text =
     remdups (filter (\<lambda>name. name \<notin> set false_positives) (name_findall pats text))"

definition extract_structured_data ::
  "(string \<Rightarrow> real option) \<Rightarrow> ocr_patterns \<Rightarrow> string \<Rightarrow> structured_data" where
  "extract_structured_data float_of pats text =
     \<lparr>account_numbers = remdups (account_number_findall pats text),
      amounts = map (parse_amount float_of) (amount_findall text),
      dates = remdups (date_findall pats text),
      phone_numbers = remdups (phone_findall pats text),
      emails = remdups (email_findall pats text),
      names = extract_names pats text\<rparr>"

section \<open>ResponseGenerator\<close>

text \<open>\<open>str.split()\<close> without a separator: the maximal runs of non-whitespace characters.\<close>

fun split_ws :: "string \<Rightarrow> string \<Rightarrow> string list" where
  "split_ws [] cur = (if cur = [] then [] else [rev cur])"
| "split_ws (c # cs) cur =
     (if is_space c then (if cur = [] then split_ws cs [] else rev cur # split_ws cs [])
      else split_ws cs (c # cur))"

record personalization =
  customer_name :: string
  sender_email :: string
  personal_subject :: string

record response =
  response_text :: string
  template_used :: "string option"
  personalization_data :: personalization
  word_count :: nat
  character_count :: nat

text \<open>
  \<open>LLMAgent.generate_response\<close>, from the completion on: \<open>response or fallback\<close>, so no
  completion and the empty completion both give the fallback text.
\<close>

definition generate_response :: "string option \<Rightarrow> string" where
  "generate_response completion =
     (case completion of
        None \<Rightarrow> ''I apologize, but I'm unable to generate a response at this time. Please contact our customer service team directly.''
      | Some t \<Rightarrow>
          if t = [] then ''I apologize, but I'm unable to generate a response at this time. Please contact our customer service team directly.''
          else t)"

text \<open>
  \<open>_extract_personalization_data\<close> as the pipeline calls it: the extracted data it
  passes has the keys \<open>all_text\<close> and \<open>structured_data\<close> only, so none of the optional
  entries is added.
\<close>

definition extract_personalization_data :: "'a email_scheme \<Rightarrow> personalization" where
  "extract_personalization_data e =
     \<lparr>customer_name = (case sender_name e of None \<Rightarrow> [] | Some n \<Rightarrow> n),
      sender_email = sender e,
      personal_subject = subject e\<rparr>"

definition generate :: "'a email_scheme \<Rightarrow> string \<Rightarrow> string option \<Rightarrow> response" where
  "generate e i completion =
     (let text = generate_response completion in
      \<lparr>response_text = text,
       template_used = Some i,
       personalization_data = extract_personalization_data e,
       word_count = (if text \<noteq> [] then length (split_ws text []) else 0),
       character_count = (if text \<noteq> [] then length text else 0)\<rparr>)"

record quality =
  has_greeting :: bool
  has_closing :: bool
  appropriate_length :: bool
  has_next_steps :: bool
  professional_tone :: bool
  quality_score :: nat
  quality_level :: string

definition evaluate_response_quality :: "'a response_scheme \<Rightarrow> quality" where
  "evaluate_response_quality r =
     (let text = response_text r;
          wc = word_count r;
          greeting = sublist ''dear'' (slice_to 100 (lower text));
          closing = list_ex (\<lambda>word. sublist word (slice_last 200 (lower text)))
                      [''regards'', ''sincerely'', ''thank you''];
          length_ok = (50 \<le> wc \<and> wc \<le> 300);
          next_steps = list_ex (\<lambda>word. sublist word (lower text))
                         [''will'', ''next'', ''steps'', ''process''];
          tone = (\<not> list_ex (\<lambda>word. sublist word (lower text)) [''hey'', ''gonna'', ''wanna'']);
          score = sum_list
                    [if greeting then 30 else 0,
                     if closing then 20 else 0,
                     if length_ok then 20 else 0,
                     if next_steps then 15 else 0,
                     if tone then 15 else 0]
      in \<lparr>has_greeting = greeting, has_closing = closing, appropriate_length = length_ok,
          has_next_steps = next_steps, professional_tone = tone,
          quality_score = score,
          quality_level = (if 80 \<le> score then ''high'' else if 60 \<le> score then ''medium''
                           else ''low'')\<rparr>)"

section \<open>The pipeline\<close>

text \<open>
  What the pipeline gets from outside is gathered in an \<open>environment\<close>:
  \<^item> \<open>float_builtin\<close>, the builtin \<open>float\<close>, and \<open>patterns\<close>, the compiled patterns;
  \<^item> \<open>pdf_lookup\<close>, for an attachment name: \<open>Inl msg\<close> when looking the file up or
    reading it raises with message \<open>msg\<close>, \<open>Inr None\<close> when the file does not exist,
    \<open>Inr (Some text)\<close> with the text \<open>extract_text_from_pdf\<close> returns;
  \<^item> \<open>classify_completion\<close> and \<open>response_completion\<close>, what \<open>generate_completion\<close>
    returns for the two prompts (it catches every exception and returns \<open>None\<close>);
  \<^item> \<open>store_results\<close>: \<open>Some msg\<close> when an exception leaves \<open>_store_results\<close> (it
    acquires the session outside its own \<open>try\<close>), \<open>None\<close> otherwise.
\<close>

record extracted =
  all_text :: string
  structured :: "structured_data option"

record environment =
  float_builtin :: "string \<Rightarrow> real option"
  patterns :: ocr_patterns
  pdf_lookup :: "string \<Rightarrow> string + string option"
  classify_completion :: "email \<Rightarrow> extracted option \<Rightarrow> string option"
  response_completion :: "email \<Rightarrow> string \<Rightarrow> extracted option \<Rightarrow> string option"
  store_results :: "email \<Rightarrow> classified \<Rightarrow> response \<Rightarrow> action \<Rightarrow> extracted option \<Rightarrow> string option"

record result_response =
  result_text :: string
  result_word_count :: nat
  result_template_used :: "string option"
  result_quality_score :: nat

text \<open>
  The result dictionary of \<open>process_email\<close>. The keys \<open>extracted_data\<close>,
  \<open>classification\<close>, \<open>response\<close> and \<open>action\<close> are added as the steps complete
  (\<open>None\<close>: not added); the extracted data is the dictionary of the last attachment
  that exists, or the empty dictionary (\<open>Some None\<close>) when none does.
\<close>

record result =
  result_email_id :: string
  result_subject :: string
  success :: bool
  error :: "string option"
  result_extracted_data :: "structured_data option option"
  result_classification :: "classification option"
  result_response :: "result_response option"
  result_action :: "action option"

text \<open>The loop over the attachments; \<open>dict.update\<close> replaces all six fields at once.\<close>

fun attachments_loop ::
  "environment \<Rightarrow> string list \<Rightarrow> string \<times> structured_data option \<Rightarrow>
   string + (string \<times> structured_data option)" where
  "attachments_loop env [] acc = Inr acc"
| "attachments_loop env (a # as) (txt, sd) =
     (case pdf_lookup env a of
        Inl err \<Rightarrow> Inl err
      | Inr None \<Rightarrow> attachments_loop env as (txt, sd)
      | Inr (Some raw) \<Rightarrow>
          attachments_loop env as
            (txt @ raw @ [CHR 0x0A],
             Some (extract_structured_data (float_builtin env) (patterns env) raw)))"

text \<open>
  The body of the \<open>try\<close> of \<open>process_email\<close>, started on the initial result: \<open>Inl\<close>
  carries the text of the exception and the result as it stood when the exception was
  raised, \<open>Inr\<close> the result of a run to the end.
\<close>

definition process_body :: "environment \<Rightarrow> email \<Rightarrow> result \<Rightarrow> (string \<times> result) + result" where
  "process_body env e r0 =
     (let atts = (case attachments e of None \<Rightarrow> [] | Some as \<Rightarrow> as) in
      case (if atts \<noteq> [] then
              (case attachments_loop env atts ([], None) of
                 Inl err \<Rightarrow> Inl err
               | Inr (txt, sd) \<Rightarrow> Inr (Some \<lparr>all_text = txt, structured = sd\<rparr>))
            else Inr None) of
        Inl err \<Rightarrow> Inl (err, r0)
      | Inr extracted_data \<Rightarrow>
          (let r1 = (case extracted_data of
                       None \<Rightarrow> r0
                     | Some x \<Rightarrow> r0\<lparr>result_extracted_data := Some (structured x)\<rparr>);
               cl = classify (float_builtin env) (classify_completion env e extracted_data);
               r2 = r1\<lparr>result_classification := Some (classification.truncate cl)\<rparr>;
               resp = generate e (intent cl) (response_completion env e (intent cl) extracted_data);
               q = evaluate_response_quality resp;
               r3 = r2\<lparr>result_response :=
                          Some \<lparr>result_text = response_text resp,
                                result_word_count = word_count resp,
                                result_template_used = template_used resp,
                                result_quality_score = quality_score q\<rparr>\<rparr>;
               act = determine_action e (intent cl) (confidence cl);
               r4 = r3\<lparr>result_action := Some act\<rparr>
           in case store_results env e cl resp act extracted_data of
                Some err \<Rightarrow> Inl (err, r4)
              | None \<Rightarrow> Inr (r4\<lparr>success := True\<rparr>)))"

definition initial_result :: "email \<Rightarrow> result" where
  "initial_result e =
     \<lparr>result_email_id = email_id e, result_subject = subject e, success = False,
      error = None, result_extracted_data = None, result_classification = None,
      result_response = None, result_action = None\<rparr>"

text \<open>
  \<open>process_email\<close>: the handler of the \<open>try\<close> stores the text of the exception
  under \<open>error\<close> and the result built so far is returned.
\<close>

definition process_email :: "environment \<Rightarrow> email \<Rightarrow> result" where
  "process_email env e =
     (case process_body env e (initial_result e) of
        Inl (err, r) \<Rightarrow> r\<lparr>error := Some err\<rparr>
      | Inr r \<Rightarrow> r)"

text \<open>\<open>process_all_emails\<close> on the emails the loader returned.\<close>

definition process_all_emails :: "environment \<Rightarrow> email list \<Rightarrow> result list" where
  "process_all_emails env email_list = map (process_email env) email_list"

record summary =
  total_emails :: nat
  successful :: nat
  failed :: nat
  intents :: "(string \<times> nat) list"
  actions :: "(string \<times> nat) list"
  avg_confidence :: real
  high_confidence :: nat
  low_confidence :: nat

text \<open>\<open>d[k] = d.get(k, 0) + 1\<close> on a dictionary kept in insertion order.\<close>

fun count_up :: "string \<Rightarrow> (string \<times> nat) list \<Rightarrow> (string \<times> nat) list" where
  "count_up k [] = [(k, 1)]"
| "count_up k ((k', n) # d) = (if k = k' then (k', n + 1) # d else (k', n) # count_up k d)"

text \<open>
  The loop of \<open>generate_summary\<close>; \<open>Inl key\<close> is the \<open>KeyError\<close> of a successful
  result without that key.
\<close>

fun summary_loop :: "result list \<Rightarrow> summary \<times> real list \<Rightarrow> string + (summary \<times> real list)" where
  "summary_loop [] acc = Inr acc"
| "summary_loop (r # rs) (s, confidences) =
     (if success r then
        (case result_classification r of
           None \<Rightarrow> Inl ''classification''
         | Some c \<Rightarrow>
             (case result_action r of
                None \<Rightarrow> Inl ''action''
              | Some a \<Rightarrow>
                  summary_loop rs
                    (s\<lparr>intents := count_up (intent c) (intents s),
                       actions := count_up (action_type a) (actions s),
                       high_confidence :=
                         (if confidence c \<ge> 0.8 then high_confidence s + 1 else high_confidence s),
                       low_confidence :=
                         (if \<not> confidence c \<ge> 0.8 \<and> confidence c < 0.6 then low_confidence s + 1
                          else low_confidence s)\<rparr>,
                     confidences @ [confidence c])))
      else summary_loop rs (s, confidences))"

definition generate_summary :: "result list \<Rightarrow> string + summary" where
  "generate_summary results =
     (case summary_loop results
             (\<lparr>total_emails = length results,
               successful = length (filter success results),
               failed = length (filter (\<lambda>r. \<not> success r) results),
               intents = [], actions = [], avg_confidence = 0,
               high_confidence = 0, low_confidence = 0\<rparr>, []) of
        Inl key \<Rightarrow> Inl key
      | Inr (s, confidences) \<Rightarrow>
          Inr (if confidences \<noteq> []
               then s\<lparr>avg_confidence := sum_list confidences / real (length confidences)\<rparr>
               else s))"

section \<open>A sample batch\<close>

text \<open>
  A batch of five emails in which looking up the attachment of the third raises; the
  texts contain nothing the other patterns match.
\<close>

definition no_matches :: ocr_patterns where
  "no_matches =
     \<lparr>account_number_findall = (\<lambda>t. []), date_findall = (\<lambda>t. []), phone_findall = (\<lambda>t. []),
      email_findall = (\<lambda>t. []), name_findall = (\<lambda>t. [])\<rparr>"

definition sample_environment :: environment where
  "sample_environment =
     \<lparr>float_builtin = float_plain,
      patterns = no_matches,
      pdf_lookup = (\<lambda>a. if a = ''broken.pdf'' then Inl ''cannot read broken.pdf'' else Inr None),
      classify_completion = (\<lambda>e x. Some ''INTENT: general_inquiry\<newline>CONFIDENCE: 0.95''),
      response_completion = (\<lambda>e i x. Some ''Dear customer, we will reply soon. Regards''),
      store_results = (\<lambda>e c r a x. None)\<rparr>"

definition sample_email :: "string \<Rightarrow> string list option \<Rightarrow> email" where
  "sample_email n atts =
     \<lparr>email_id = n, sender = ''customer@example.com'', subject = ''Opening hours'',
      body = ''When are you open?'', date = ''2024-01-15T10:30:00'', sender_name = None,
      priority = Some ''low'', attachments = atts\<rparr>"

definition sample_batch :: "email list" where
  "sample_batch =
     [sample_email ''001'' None, sample_email ''002'' None,
      sample_email ''003'' (Some [''broken.pdf'']),
      sample_email ''004'' None, sample_email ''005'' (Some [])]"

section \<open>Verified properties\<close>

subsection \<open>Classification policy\<close>

text \<open>
  C1. Whatever the external classifier returns (any completion text, the empty string, no
  completion at all), the intent of the result of \<open>classify\<close> is one of the five closed
  values; when the label the agent returned is not one of them, the intent becomes
  \<open>general_inquiry\<close> and the confidence becomes \<open>max(0.5, confidence * 0.7)\<close>. The
  same holds of the validation step on any classification an agent may hand over.
\<close>

theorem classify_intent_closed:
  "intent (classify float_of completion) \<in> set closed_intents \<and>
   (intent (classify_intent float_of completion) \<notin> set closed_intents \<longrightarrow>
      intent (classify float_of completion) = ''general_inquiry'' \<and>
      confidence (classify float_of completion) =
        max 0.5 (confidence (classify_intent float_of completion) * 0.7)) \<and>
   intent (validate c) \<in> set closed_intents \<and>
   (intent c \<notin> set closed_intents \<longrightarrow>
      intent (validate c) = ''general_inquiry'' \<and>
      confidence (validate c) = max 0.5 (confidence c * 0.7))"
  by (simp add: classify_def validate_def closed_intents_def INTENT_CATEGORIES_def Let_def
      classification.defs)

theorem classify_intent_closed_witness:
  "intent (classify_intent float_plain None) \<notin> set closed_intents \<and>
   intent (classify float_plain None) = ''general_inquiry'' \<and>
   confidence (classify float_plain None) = 0.5"
  using classify_intent_closed [of float_plain None parse_default]
  by (simp add: classify_intent_def closed_intents_def)

subsection \<open>Escalation and action\<close>

text \<open>
  C3. \<open>should_escalate\<close> is the ordered rule list of the specification with the first
  matching rule deciding: low confidence, critical priority, fraud complaint, loan
  request, high-priority account issue, and otherwise no escalation with the reason
  "Standard processing". For confidence 0.5, intent fraud_complaint and priority low the
  result escalates with the low-confidence reason, which is not the fraud reason.
\<close>

theorem should_escalate_rules:
  "should_escalate fmt c e =
     first_match (escalation_rules fmt) (\<lambda>_. (False, ''Standard processing''))
       (intent c, confidence c, priority_of e) \<and>
   should_escalate fmt
       \<lparr>intent = ''fraud_complaint'', confidence = 0.5, sub_category = sc, reasoning = r\<rparr>
       (e\<lparr>priority := Some ''low''\<rparr>) =
     (True, ''Low confidence classification ('' @ fmt 0.5 @ '')'') \<and>
   ''Low confidence classification ('' @ fmt 0.5 @ '')'' \<noteq>
     ''Fraud complaint requires immediate review''"
  by (simp add: should_escalate_def escalation_rules_def Let_def)

text \<open>
  C4. For a closed intent, a confidence in [0, 1] and a priority among critical, high,
  medium and low: when \<open>should_escalate\<close> says escalate, the action type of
  \<open>determine_action\<close> is not reply.
\<close>

theorem escalate_never_reply:
  assumes "intent c \<in> set closed_intents"
    and "0 \<le> confidence c" and "confidence c \<le> 1"
    and "priority_of e \<in> set valid_priorities"
    and "fst (should_escalate fmt c e)"
  shows "action_type (determine_action e (intent c) (confidence c)) \<noteq> ''reply''"
  using assms
  by (auto simp add: should_escalate_def determine_action_def Let_def split: if_splits)

theorem escalate_never_reply_witness:
  "action_type
     (determine_action
        \<lparr>email_id = ''e1'', sender = ''a@b.c'', subject = ''Login'', body = ''Cannot log in'',
         date = ''2024-01-01'', sender_name = None, priority = Some ''high'',
         attachments = None\<rparr>
        ''account_issue'' 0.9) \<noteq> ''reply''"
proof -
  let ?c = "\<lparr>intent = ''account_issue'', confidence = 0.9, sub_category = None,
             reasoning = []\<rparr>"
  let ?e = "\<lparr>email_id = ''e1'', sender = ''a@b.c'', subject = ''Login'',
             body = ''Cannot log in'', date = ''2024-01-01'', sender_name = None,
             priority = Some ''high'', attachments = None\<rparr>"
  have h1: "intent ?c \<in> set closed_intents" by (simp add: closed_intents_def)
  have h2: "0 \<le> confidence ?c" by simp
  have h3: "confidence ?c \<le> 1" by simp
  have h4: "priority_of ?e \<in> set valid_priorities"
    by (simp add: priority_of_def valid_priorities_def)
  have h5: "fst (should_escalate (\<lambda>x. ''0.90'') ?c ?e)"
    by (simp add: should_escalate_def priority_of_def Let_def)
  show ?thesis using escalate_never_reply [OF h1 h2 h3 h4 h5] by simp
qed

text \<open>
  C5. \<open>determine_action\<close> is the ordered cascade of the specification: low confidence
  gives (escalate, human_review_team); else a fraud complaint or critical priority gives
  escalate, to fraud_department for a fraud complaint and to escalation_team otherwise;
  else a loan request gives (escalate, loan_department); else a KYC update gives
  (reply, kyc_team); else an account issue gives (escalate, customer_support_tier2) at high
  priority and (reply, customer_support) otherwise; else (reply, customer_support). Every
  branch gives a non-empty reason. A fraud complaint with confidence 0.92 and critical
  priority is escalated to fraud_department, and a general inquiry with confidence 0.95
  and low priority is replied to by customer_support.
\<close>

theorem determine_action_cascade:
  "(action_type (determine_action e i conf), assigned_to (determine_action e i conf)) =
     first_match action_rules (\<lambda>_. (''reply'', ''customer_support''))
       (i, conf, priority_of e) \<and>
   reason (determine_action e i conf) \<noteq> [] \<and>
   action_type (determine_action (e\<lparr>priority := Some ''critical''\<rparr>) ''fraud_complaint'' 0.92)
     = ''escalate'' \<and>
   assigned_to (determine_action (e\<lparr>priority := Some ''critical''\<rparr>) ''fraud_complaint'' 0.92)
     = ''fraud_department'' \<and>
   action_type (determine_action (e\<lparr>priority := Some ''low''\<rparr>) ''general_inquiry'' 0.95)
     = ''reply'' \<and>
   assigned_to (determine_action (e\<lparr>priority := Some ''low''\<rparr>) ''general_inquiry'' 0.95)
     = ''customer_support''"
  by (simp add: determine_action_def action_rules_def Let_def priority_of_def)

text \<open>
  C10. When the priority key of the email is absent, \<open>should_escalate\<close> and
  \<open>determine_action\<close> give what they give for the same classification with priority
  medium, and neither the critical-priority nor the high-priority rule decides.
\<close>

theorem absent_priority_is_medium:
  assumes "priority e = None"
  shows "should_escalate fmt c e = should_escalate fmt c (e\<lparr>priority := Some ''medium''\<rparr>) \<and>
         determine_action e i conf = determine_action (e\<lparr>priority := Some ''medium''\<rparr>) i conf \<and>
         snd (should_escalate fmt c e) \<noteq> ''Critical priority email'' \<and>
         snd (should_escalate fmt c e) \<noteq> ''High priority account issue'' \<and>
         assigned_to (determine_action e i conf) \<noteq> ''escalation_team'' \<and>
         assigned_to (determine_action e i conf) \<noteq> ''customer_support_tier2''"
  using assms
  by (simp add: should_escalate_def determine_action_def Let_def priority_of_def)

theorem absent_priority_is_medium_witness:
  "determine_action
     \<lparr>email_id = ''e2'', sender = ''a@b.c'', subject = ''Login'', body = ''Cannot log in'',
      date = ''2024-01-01'', sender_name = None, priority = None, attachments = None\<rparr>
     ''account_issue'' 0.9 =
   \<lparr>action_type = ''reply'', action_priority = ''medium'',
    reason = ''Standard account issue'', assigned_to = ''customer_support''\<rparr>"
proof -
  let ?e = "\<lparr>email_id = ''e2'', sender = ''a@b.c'', subject = ''Login'',
             body = ''Cannot log in'', date = ''2024-01-01'', sender_name = None,
             priority = None, attachments = None\<rparr>"
  have h: "priority ?e = None" by simp
  show ?thesis
    using absent_priority_is_medium [OF h, of "\<lambda>x. ''0.90''" parse_default "''account_issue''" "0.9"]
    by (simp add: determine_action_def priority_of_def Let_def)
qed

lemmas str_defs =
  strip_def is_space_def is_digit_def nat_of_digits_def digit_val_def lower_def lower_char_def




subsection \<open>Structured data\<close>

text \<open>
  C7 (as amended). \<open>_parse_amount\<close> maps "$1,234.56" to 1234.56. A text such as "$abc",
  which \<open>amount_pattern\<close> does not match, gives no amount. A token the pattern matches
  and \<open>float\<close> rejects is not excluded: \<open>_parse_amount\<close> returns 0.0 for it, and that
  0.0 is in the amounts, which hold one value for every matched token; no error is raised.
\<close>

theorem unparseable_amount_is_zero:
  assumes "tok \<in> set (amount_findall txt)"
    and "float_of (str_remove '','' (str_remove ''$'' tok)) = None"
  shows "parse_amount float_of tok = 0 \<and>
         0 \<in> set (amounts (extract_structured_data float_of pats txt)) \<and>
         length (amounts (extract_structured_data float_of pats txt)) = length (amount_findall txt) \<and>
         parse_amount float_plain ''$1,234.56'' = 1234.56 \<and>
         amount_findall ''$abc'' = []"
proof -
  have z: "parse_amount float_of tok = 0" using assms(2) by (simp add: parse_amount_def)
  have "parse_amount float_of tok \<in> set (amounts (extract_structured_data float_of pats txt))"
    using assms(1) by (simp add: extract_structured_data_def)
  with z have m: "0 \<in> set (amounts (extract_structured_data float_of pats txt))" by simp
  have l: "length (amounts (extract_structured_data float_of pats txt)) = length (amount_findall txt)"
    by (simp add: extract_structured_data_def)
  have e: "parse_amount float_plain ''$1,234.56'' = 1234.56"
    by (simp add: parse_amount_def float_plain_def str_defs Let_def)
  have a: "amount_findall ''$abc'' = []"
    by (simp add: amount_findall_def amount_match_def is_digit_def)
  from z m l e a show ?thesis by simp
qed

theorem unparseable_amount_is_zero_witness:
  "parse_amount float_plain ''$,'' = 0 \<and>
   0 \<in> set (amounts (extract_structured_data float_plain no_matches ''refund in $, not in EUR''))"
proof -
  have h1: "''$,'' \<in> set (amount_findall ''refund in $, not in EUR'')"
    by (simp add: amount_findall_def amount_match_def is_digit_def)
  have h2: "float_plain (str_remove '','' (str_remove ''$'' ''$,'')) = None"
    by (simp add: float_plain_def str_defs)
  from unparseable_amount_is_zero
         [where float_of = float_plain and pats = no_matches, OF h1 h2]
  show ?thesis by simp
qed

text \<open>
  C7 as stated fails: in "refund in $, not in EUR" the pattern matches the token "$,",
  \<open>float\<close> rejects what is left of it, and the amounts are [0.0].
\<close>

theorem unparseable_amount_kept_as_zero:
  "amount_findall ''refund in $, not in EUR'' = [''$,''] \<and>
   float_plain (str_remove '','' (str_remove ''$'' ''$,'')) = None \<and>
   amounts (extract_structured_data float_plain no_matches ''refund in $, not in EUR'') = [0]"
  by (simp add: extract_structured_data_def amount_findall_def amount_match_def parse_amount_def
      float_plain_def str_defs Let_def)

text \<open>
  C8 (as amended). For every text, the account numbers, dates, phone numbers, email
  addresses and names of the extracted data hold no value twice; the amounts are not
  deduplicated: they hold the parsed value of every matched token, in the order of the
  matches.
\<close>

theorem structured_data_deduplicated:
  "distinct (account_numbers (extract_structured_data float_of pats txt)) \<and>
   distinct (dates (extract_structured_data float_of pats txt)) \<and>
   distinct (phone_numbers (extract_structured_data float_of pats txt)) \<and>
   distinct (emails (extract_structured_data float_of pats txt)) \<and>
   distinct (names (extract_structured_data float_of pats txt)) \<and>
   amounts (extract_structured_data float_of pats txt) =
     map (parse_amount float_of) (amount_findall txt)"
  by (simp add: extract_structured_data_def extract_names_def)

text \<open>C8 as stated fails: the text "$5 and $5" gives the amounts [5.0, 5.0].\<close>

theorem amounts_not_deduplicated:
  "\<not> distinct (amounts (extract_structured_data float_plain no_matches ''$5 and $5''))"
  by (simp add: extract_structured_data_def amount_findall_def amount_match_def parse_amount_def
      float_plain_def str_defs Let_def)

subsection \<open>Response quality\<close>

text \<open>
  C9. The quality score is 30 for "dear" in the first 100 characters, plus 20 for a
  closing phrase in the last 200 characters, plus 20 for a word count from 50 to 300,
  plus 15 for forward-looking words, plus 15 for the absence of informal words (all on the
  lower-cased text); the level is high from 80, medium from 60 and low below. A response
  with word count 40 scores exactly 20 less than the same response with word count 150.
\<close>

theorem response_quality_rubric:
  "quality_score (evaluate_response_quality r) =
     (if has_greeting (evaluate_response_quality r) then 30 else 0) +
     (if has_closing (evaluate_response_quality r) then 20 else 0) +
     (if appropriate_length (evaluate_response_quality r) then 20 else 0) +
     (if has_next_steps (evaluate_response_quality r) then 15 else 0) +
     (if professional_tone (evaluate_response_quality r) then 15 else 0) \<and>
   has_greeting (evaluate_response_quality r) =
     sublist ''dear'' (take 100 (lower (response_text r))) \<and>
   has_closing (evaluate_response_quality r) =
     (\<exists>w \<in> {''regards'', ''sincerely'', ''thank you''}.
        sublist w (drop (length (response_text r) - 200) (lower (response_text r)))) \<and>
   appropriate_length (evaluate_response_quality r) = (50 \<le> word_count r \<and> word_count r \<le> 300) \<and>
   has_next_steps (evaluate_response_quality r) =
     (\<exists>w \<in> {''will'', ''next'', ''steps'', ''process''}. sublist w (lower (response_text r))) \<and>
   professional_tone (evaluate_response_quality r) =
     (\<not> (\<exists>w \<in> {''hey'', ''gonna'', ''wanna''}. sublist w (lower (response_text r)))) \<and>
   quality_level (evaluate_response_quality r) =
     (if 80 \<le> quality_score (evaluate_response_quality r) then ''high''
      else if 60 \<le> quality_score (evaluate_response_quality r) then ''medium'' else ''low'') \<and>
   quality_score (evaluate_response_quality (r\<lparr>word_count := 150\<rparr>)) =
     quality_score (evaluate_response_quality (r\<lparr>word_count := 40\<rparr>)) + 20"
  by (simp add: evaluate_response_quality_def Let_def slice_to_def slice_last_def lower_def)

theorem response_quality_rubric_witness:
  "quality_score (evaluate_response_quality
      \<lparr>response_text = ''Dear customer, we will reply soon. Regards'', template_used = None,
       personalization_data = \<lparr>customer_name = [], sender_email = [], personal_subject = []\<rparr>,
       word_count = 150, character_count = 42\<rparr>) = 100 \<and>
   quality_score (evaluate_response_quality
      \<lparr>response_text = ''Dear customer, we will reply soon. Regards'', template_used = None,
       personalization_data = \<lparr>customer_name = [], sender_email = [], personal_subject = []\<rparr>,
       word_count = 40, character_count = 42\<rparr>) = 80"
proof -
  let ?r = "\<lparr>response_text = ''Dear customer, we will reply soon. Regards'', template_used = None,
       personalization_data = \<lparr>customer_name = [], sender_email = [], personal_subject = []\<rparr>,
       word_count = 40, character_count = 42\<rparr>"
  have g: "sublist ''dear'' (take 100 (lower (response_text ?r)))"
    by code_simp
  have c: "sublist ''regards'' (drop (length (response_text ?r) - 200) (lower (response_text ?r)))"
    by code_simp
  have n: "sublist ''will'' (lower (response_text ?r))"
    by code_simp
  have t: "\<not> (\<exists>w \<in> {''hey'', ''gonna'', ''wanna''}. sublist w (lower (response_text ?r)))"
    by code_simp
  from response_quality_rubric [of ?r] g c n t
  have "quality_score (evaluate_response_quality ?r) = 80"
    by auto
  moreover from this response_quality_rubric [of ?r]
  have "quality_score (evaluate_response_quality (?r\<lparr>word_count := 150\<rparr>)) = 100" by simp
  ultimately show ?thesis by simp
qed

subsection \<open>Batch processing\<close>

lemma process_body_Inr:
  assumes "process_body env e r0 = Inr r"
  shows "success r \<and> result_classification r \<noteq> None \<and> result_action r \<noteq> None \<and>
         error r = error r0 \<and> result_email_id r = result_email_id r0"
  using assms
  by (auto simp add: process_body_def Let_def split: sum.splits option.splits if_splits prod.splits)

lemma process_body_Inl:
  assumes "process_body env e r0 = Inl (err, r)"
  shows "success r = success r0 \<and> result_email_id r = result_email_id r0"
  using assms
  by (auto simp add: process_body_def Let_def split: sum.splits option.splits if_splits prod.splits)

lemma process_email_id: "result_email_id (process_email env e) = email_id e"
proof (cases "process_body env e (initial_result e)")
  case (Inl p)
  obtain err r where p: "p = (err, r)" by (cases p)
  from Inl p process_body_Inl [of env e "initial_result e" err r]
  show ?thesis by (simp add: process_email_def initial_result_def)
next
  case (Inr r)
  from Inr process_body_Inr [of env e "initial_result e" r]
  show ?thesis by (simp add: process_email_def initial_result_def)
qed

lemma process_email_failure:
  assumes "process_body env e (initial_result e) = Inl (err, r)"
  shows "\<not> success (process_email env e) \<and> error (process_email env e) = Some err"
  using assms process_body_Inl [OF assms]
  by (simp add: process_email_def initial_result_def)

lemma process_email_complete:
  "success (process_email env e) \<Longrightarrow>
     result_classification (process_email env e) \<noteq> None \<and>
     result_action (process_email env e) \<noteq> None"
proof (cases "process_body env e (initial_result e)")
  case (Inl p)
  assume s: "success (process_email env e)"
  obtain err r where p: "p = (err, r)" by (cases p)
  from Inl p process_body_Inl [of env e "initial_result e" err r] s
  show ?thesis by (simp add: process_email_def initial_result_def)
next
  case (Inr r)
  from Inr process_body_Inr [of env e "initial_result e" r]
  show ?thesis by (simp add: process_email_def)
qed

lemma summary_loop_returns:
  assumes "\<forall>r \<in> set rs. success r \<longrightarrow> result_classification r \<noteq> None \<and> result_action r \<noteq> None"
  shows "\<exists>s' cs'. summary_loop rs (s, cs) = Inr (s', cs') \<and> total_emails s' = total_emails s \<and>
           successful s' = successful s \<and> failed s' = failed s"
  using assms
proof (induction rs arbitrary: s cs)
  case Nil
  then show ?case by simp
next
  case (Cons r rs)
  show ?case
  proof (cases "success r")
    case False
    with Cons show ?thesis by simp
  next
    case True
    with Cons.prems obtain c a where ca: "result_classification r = Some c" "result_action r = Some a"
      by auto
    let ?s = "s\<lparr>intents := count_up (intent c) (intents s),
                 actions := count_up (action_type a) (actions s),
                 high_confidence :=
                   (if confidence c \<ge> 0.8 then high_confidence s + 1 else high_confidence s),
                 low_confidence :=
                   (if \<not> confidence c \<ge> 0.8 \<and> confidence c < 0.6 then low_confidence s + 1
                    else low_confidence s)\<rparr>"
    from Cons.prems have "\<forall>r \<in> set rs. success r \<longrightarrow> result_classification r \<noteq> None \<and> result_action r \<noteq> None"
      by simp
    from Cons.IH [OF this, of ?s "cs @ [confidence c]"] True ca
    show ?thesis by simp
  qed
qed

lemma generate_summary_counts:
  assumes "\<forall>r \<in> set rs. success r \<longrightarrow> result_classification r \<noteq> None \<and> result_action r \<noteq> None"
  shows "\<exists>s. generate_summary rs = Inr s \<and> total_emails s = length rs \<and>
           successful s = length (filter success rs) \<and>
           failed s = length (filter (\<lambda>r. \<not> success r) rs)"
proof -
  let ?s0 = "\<lparr>total_emails = length rs,
               successful = length (filter success rs),
               failed = length (filter (\<lambda>r. \<not> success r) rs),
               intents = [], actions = [], avg_confidence = 0,
               high_confidence = 0, low_confidence = 0\<rparr>"
  from summary_loop_returns [OF assms, of ?s0 "[]"]
  obtain s' cs' where "summary_loop rs (?s0, []) = Inr (s', cs')"
    "total_emails s' = length rs" "successful s' = length (filter success rs)"
    "failed s' = length (filter (\<lambda>r. \<not> success r) rs)"
    by auto
  then show ?thesis by (simp add: generate_summary_def)
qed

text \<open>
  C6. In a batch, an email whose processing raises gives a failure outcome with the id of
  that email and the text of the error; the batch has one outcome for every email, each
  the outcome of processing that email alone, so the other emails are processed and the
  failed one is not left out; \<open>generate_summary\<close> returns on the outcomes of the batch,
  and its successful and failed counts are the numbers of success and failure outcomes.
\<close>

theorem batch_isolation:
  assumes "i < length es"
    and "process_body env (es ! i) (initial_result (es ! i)) = Inl (err, partial)"
  shows "\<exists>s. length (process_all_emails env es) = length es \<and>
           (\<forall>j < length es. process_all_emails env es ! j = process_email env (es ! j)) \<and>
           result_email_id (process_all_emails env es ! i) = email_id (es ! i) \<and>
           \<not> success (process_all_emails env es ! i) \<and>
           error (process_all_emails env es ! i) = Some err \<and>
           generate_summary (process_all_emails env es) = Inr s \<and>
           total_emails s = length es \<and>
           successful s = length (filter success (process_all_emails env es)) \<and>
           failed s = length (filter (\<lambda>r. \<not> success r) (process_all_emails env es)) \<and>
           successful s + failed s = length es"
proof -
  let ?rs = "process_all_emails env es"
  have len: "length ?rs = length es" by (simp add: process_all_emails_def)
  have nth: "\<forall>j < length es. ?rs ! j = process_email env (es ! j)"
    by (simp add: process_all_emails_def)
  have inv: "\<forall>r \<in> set ?rs. success r \<longrightarrow> result_classification r \<noteq> None \<and> result_action r \<noteq> None"
    using process_email_complete by (auto simp add: process_all_emails_def)
  from generate_summary_counts [OF inv] obtain s where s:
    "generate_summary ?rs = Inr s" "total_emails s = length ?rs"
    "successful s = length (filter success ?rs)"
    "failed s = length (filter (\<lambda>r. \<not> success r) ?rs)" by blast
  have sum: "successful s + failed s = length es"
    using s len sum_length_filter_compl [of success ?rs] by simp
  from assms nth have "?rs ! i = process_email env (es ! i)" by simp
  with process_email_failure [OF assms(2)] process_email_id [of env "es ! i"]
  have fail: "result_email_id (?rs ! i) = email_id (es ! i)" "\<not> success (?rs ! i)"
    "error (?rs ! i) = Some err" by simp_all
  from len nth fail s sum show ?thesis by auto
qed




lemma sample_ok:
  "success (process_email sample_environment (sample_email n None))"
  by (simp add: process_email_def process_body_def sample_environment_def sample_email_def
      initial_result_def Let_def split: sum.splits option.splits)

lemma sample_ok2:
  "success (process_email sample_environment (sample_email n (Some [])))"
  by (simp add: process_email_def process_body_def sample_environment_def sample_email_def
      initial_result_def Let_def split: sum.splits option.splits)

lemma sample_bad:
  "process_body sample_environment (sample_email n (Some [''broken.pdf''])) (initial_result (sample_email n (Some [''broken.pdf''])))
    = Inl (''cannot read broken.pdf'', initial_result (sample_email n (Some [''broken.pdf''])))"
  by (simp add: process_body_def sample_environment_def sample_email_def Let_def)

theorem batch_isolation_witness:
  "\<exists>s. generate_summary (process_all_emails sample_environment sample_batch) = Inr s \<and>
        total_emails s = 5 \<and> successful s = 4 \<and> failed s = 1 \<and>
        result_email_id (process_all_emails sample_environment sample_batch ! 2) = ''003'' \<and>
        error (process_all_emails sample_environment sample_batch ! 2) = Some ''cannot read broken.pdf''"
proof -
  have h1: "2 < length sample_batch" by (simp add: sample_batch_def)
  have h2: "process_body sample_environment (sample_batch ! 2) (initial_result (sample_batch ! 2))
    = Inl (''cannot read broken.pdf'', initial_result (sample_email ''003'' (Some [''broken.pdf''])))"
    by (simp add: sample_batch_def sample_bad)
  have bad: "\<not> success (process_email sample_environment (sample_email ''003'' (Some [''broken.pdf''])))"
    unfolding process_email_def sample_bad by (simp add: initial_result_def)
  have cnt: "length (filter success (process_all_emails sample_environment sample_batch)) = 4"
    by (simp add: process_all_emails_def sample_batch_def sample_ok sample_ok2 bad)
  have len: "length sample_batch = 5" by (simp add: sample_batch_def)
  have id: "email_id (sample_batch ! 2) = ''003''" by (simp add: sample_batch_def sample_email_def)
  from batch_isolation [OF h1 h2] obtain s where s:
    "generate_summary (process_all_emails sample_environment sample_batch) = Inr s"
    "total_emails s = length sample_batch"
    "successful s = length (filter success (process_all_emails sample_environment sample_batch))"
    "successful s + failed s = length sample_batch"
    "result_email_id (process_all_emails sample_environment sample_batch ! 2) = email_id (sample_batch ! 2)"
    "error (process_all_emails sample_environment sample_batch ! 2) = Some ''cannot read broken.pdf''"
    by blast
  from s cnt len id have "total_emails s = 5 \<and> successful s = 4 \<and> failed s = 1" by simp
  with s id show ?thesis by auto
qed

end
